theory Spec2Isabelle
  imports Main
begin

section \<open>The security context of package \<open>local\<close> (src/common/security/local/context.go)\<close>

text \<open>
  The file defines \<open>SecurityContext\<close>, the database-backed implementation of the
  permission predicates \<open>HasReadPerm\<close>, \<open>HasWritePerm\<close> and \<open>HasAllPerm\<close>, the role
  resolver \<open>GetProjectRoles\<close> with its fallback \<open>GetRolesByGroup\<close>, and the listing
  \<open>GetMyProjects\<close>. Every method is embedded below as a HOL function of the same name.

  Everything the methods call outside their own file (the project manager \<open>pm\<close>, the
  functions of packages \<open>dao\<close> and \<open>group\<close>, the constants of package \<open>common\<close>) is a
  parameter of the embedding: the theorems hold for every behaviour of these
  collaborators. A collaborator call may read and change the outside world (the
  database), so it is a function from the world before the call to its result and the
  world after it, and the methods thread the world through their calls in the order of
  the source. Beside the world, the state carries the list of the calls made and of
  the lines logged, so that "this collaborator is not consulted" is a statement about
  that list.
\<close>

subsection \<open>Go values\<close>

text \<open>A non-nil value of Go's \<open>error\<close> interface, by its message.\<close>

type_synonym err = string

text \<open>
  A Go slice is either \<open>nil\<close> or a (possibly empty) sequence; \<open>len\<close> is 0 on both and
  \<open>range\<close> runs over no element of either, but \<open>[]int{}\<close> and \<open>nil\<close> are different
  values.
\<close>

datatype 'a slice = NilSlice | Slice "'a list"

fun elems :: "'a slice \<Rightarrow> 'a list" where
  "elems NilSlice = []"
| "elems (Slice xs) = xs"

definition len :: "'a slice \<Rightarrow> nat" where
  "len xs = length (elems xs)"

text \<open>
  The parameter \<open>projectIDOrName interface{}\<close>: the nil interface, a project id
  (\<open>int64\<close>), a project name, or a value of any other dynamic type.
\<close>

datatype id_or_name = NilIdent | ProjectIDIdent int | ProjectNameIdent string | OtherIdent

text \<open>
  What a method call ends with: a value, or the run-time panic of dereferencing a nil
  pointer.
\<close>

datatype 'a outcome = Returned 'a | Panic_nil_dereference

subsection \<open>The structs of package \<open>models\<close> the file reads\<close>

text \<open>
  Package \<open>models\<close> is not part of the file. The records below have the fields the
  methods read or set (\<open>UserID\<close>, \<open>Username\<close>, \<open>HasAdminRole\<close>, \<open>GroupList\<close>;
  \<open>ProjectID\<close>; \<open>RoleCode\<close>; \<open>Name\<close> and \<open>GroupList\<close> of the member query;
  \<open>Projects\<close>). A group is known by its identifier: the methods only count the groups
  and hand them on.
\<close>

type_synonym UserGroup = int

record User =
  UserID :: int
  Username :: string
  HasAdminRole :: bool
  GroupList :: "UserGroup slice"

record Project =
  ProjectID :: int
  ProjectName :: string

record Role =
  RoleID :: int
  RoleCode :: string

record MemberQuery =
  Name :: string
  QueryGroupList :: "UserGroup slice"

record ProjectQueryResult =
  Total :: int
  Projects :: "Project slice"

text \<open>\<open>models.User{Username: name}\<close>: every other field has its zero value.\<close>

definition User_with_Username :: "string \<Rightarrow> User" where
  "User_with_Username name =
     \<lparr>UserID = 0, Username = name, HasAdminRole = False, GroupList = NilSlice\<rparr>"

subsection \<open>Collaborators\<close>

text \<open>
  The interface \<open>promgr.ProjectManager\<close>, by the three methods the file calls. A Go
  result \<open>(v, err)\<close> is a sum: \<open>Inl e\<close> when \<open>err != nil\<close> (the methods never look at
  \<open>v\<close> then), \<open>Inr v\<close> otherwise; a pointer result that may be nil is an option. The
  field \<open>pm\<close> of a context is taken to hold an implementation (calling a method of a
  nil interface is outside the model).
\<close>

record 'w ProjectManager =
  pm_IsPublic :: "id_or_name \<Rightarrow> 'w \<Rightarrow> (err + bool) \<times> 'w"
  pm_Get :: "id_or_name \<Rightarrow> 'w \<Rightarrow> (err + Project option) \<times> 'w"
  pm_List :: "MemberQuery \<Rightarrow> 'w \<Rightarrow> (err + ProjectQueryResult option) \<times> 'w"

text \<open>
  What the file imports from packages \<open>common\<close>, \<open>dao\<close> and \<open>group\<close>: the three role
  constants and the member kind \<open>common.UserMember\<close>, and the four functions
  \<open>dao.GetUser\<close>, \<open>dao.GetUserProjectRoles\<close>, \<open>group.GetGroupDNQueryCondition\<close> and
  \<open>dao.GetRolesByLDAPGroup\<close>.
\<close>

record 'w packages =
  RoleProjectAdmin :: int
  RoleDeveloper :: int
  RoleGuest :: int
  UserMember :: string
  dao_GetUser :: "User \<Rightarrow> 'w \<Rightarrow> (err + User option) \<times> 'w"
  dao_GetUserProjectRoles :: "int \<Rightarrow> int \<Rightarrow> string \<Rightarrow> 'w \<Rightarrow> (err + Role list) \<times> 'w"
  group_GetGroupDNQueryCondition :: "UserGroup slice \<Rightarrow> 'w \<Rightarrow> string \<times> 'w"
  dao_GetRolesByLDAPGroup :: "int \<Rightarrow> string \<Rightarrow> 'w \<Rightarrow> (err + int slice) \<times> 'w"

subsection \<open>The state: the world and the record of calls\<close>

datatype event =
    Call_IsPublic id_or_name "err + bool"
  | Call_Get id_or_name "err + Project option"
  | Call_List MemberQuery "err + ProjectQueryResult option"
  | Call_GetUser User "err + User option"
  | Call_GetUserProjectRoles int int string "err + Role list"
  | Call_GetGroupDNQueryCondition "UserGroup slice" string
  | Call_GetRolesByLDAPGroup int string "err + int slice"
  | Log_Errorf string
  | Log_Debugf string

record 'w state =
  world :: 'w
  trace :: "event list"

text \<open>One collaborator call: run it on the world, record the call with its result.\<close>

definition call :: "('w \<Rightarrow> 'r \<times> 'w) \<Rightarrow> ('r \<Rightarrow> event) \<Rightarrow> 'w state \<Rightarrow> 'r \<times> 'w state" where
  "call f ev st =
     (case f (world st) of (r, w') \<Rightarrow> (r, \<lparr>world = w', trace = trace st @ [ev r]\<rparr>))"

text \<open>\<open>log.Errorf\<close> and \<open>log.Debugf\<close>, by their format string.\<close>

definition log_Errorf :: "string \<Rightarrow> 'w state \<Rightarrow> 'w state" where
  "log_Errorf fmt st = st\<lparr>trace := trace st @ [Log_Errorf fmt]\<rparr>"

definition log_Debugf :: "string \<Rightarrow> 'w state \<Rightarrow> 'w state" where
  "log_Debugf fmt st = st\<lparr>trace := trace st @ [Log_Debugf fmt]\<rparr>"

subsection \<open>\<open>SecurityContext\<close> and its methods\<close>

record 'w SecurityContext =
  user :: "User option"
  pm :: "'w ProjectManager"

definition NewSecurityContext :: "User option \<Rightarrow> 'w ProjectManager \<Rightarrow> 'w SecurityContext" where
  "NewSecurityContext u p = \<lparr>user = u, pm = p\<rparr>"

text \<open>
  \<open>GetUsername\<close> and \<open>IsSysAdmin\<close> read a field of \<open>s.user\<close> only after
  \<open>IsAuthenticated\<close> has found it non-nil, so the case \<open>None\<close> after the test is never
  reached.
\<close>

definition IsAuthenticated :: "'w SecurityContext \<Rightarrow> bool" where
  "IsAuthenticated s = (user s \<noteq> None)"

definition GetUsername :: "'w SecurityContext \<Rightarrow> string" where
  "GetUsername s =
     (if \<not> IsAuthenticated s then ''''
      else case user s of Some u \<Rightarrow> Username u | None \<Rightarrow> '''')"

definition IsSysAdmin :: "'w SecurityContext \<Rightarrow> bool" where
  "IsSysAdmin s =
     (if \<not> IsAuthenticated s then False
      else case user s of Some u \<Rightarrow> HasAdminRole u | None \<Rightarrow> False)"

definition IsSolutionUser :: "'w SecurityContext \<Rightarrow> bool" where
  "IsSolutionUser s = False"

text \<open>
  The loop of \<open>GetProjectRoles\<close> over the rows of the direct-assignment query: the
  \<open>switch\<close> on the row's role code appends a role constant for each of the three
  codes and has no default case.
\<close>

fun append_roles :: "'w packages \<Rightarrow> Role list \<Rightarrow> int list \<Rightarrow> int list" where
  "append_roles env [] roles = roles"
| "append_roles env (role # roleList) roles =
     append_roles env roleList
       (if RoleCode role = ''MDRWS'' then roles @ [RoleProjectAdmin env]
        else if RoleCode role = ''RWS'' then roles @ [RoleDeveloper env]
        else if RoleCode role = ''RS'' then roles @ [RoleGuest env]
        else roles)"

text \<open>
  \<open>GetRolesByGroup\<close>: the roles the user's LDAP groups have in the project. \<open>roles\<close> is
  declared with \<open>var roles []int\<close>, the nil slice. The project is looked up first; the
  test \<open>err != nil || project == nil || user == nil || len(user.GroupList) == 0\<close> is
  read from left to right and returns \<open>roles\<close>, still nil, at the first disjunct that
  holds. An error of the group-role query returns \<open>nil\<close>.
\<close>

definition GetRolesByGroup ::
  "'w packages \<Rightarrow> 'w SecurityContext \<Rightarrow> id_or_name \<Rightarrow> 'w state \<Rightarrow> int slice \<times> 'w state" where
  "GetRolesByGroup env s projectIDOrName st =
     (case call (pm_Get (pm s) projectIDOrName) (Call_Get projectIDOrName) st of
        (Inl e, st1) \<Rightarrow> (NilSlice, st1)
      | (Inr None, st1) \<Rightarrow> (NilSlice, st1)
      | (Inr (Some project), st1) \<Rightarrow>
          (case user s of
             None \<Rightarrow> (NilSlice, st1)
           | Some u \<Rightarrow>
               if len (GroupList u) = 0 then (NilSlice, st1)
               else
                 (case call (group_GetGroupDNQueryCondition env (GroupList u))
                         (Call_GetGroupDNQueryCondition (GroupList u)) st1 of
                    (groupDNConditions, st2) \<Rightarrow>
                      (case call (dao_GetRolesByLDAPGroup env (ProjectID project) groupDNConditions)
                              (Call_GetRolesByLDAPGroup (ProjectID project) groupDNConditions) st2 of
                         (Inl e, st3) \<Rightarrow> (NilSlice, st3)
                       | (Inr roles, st3) \<Rightarrow> (roles, st3)))))"

definition GetProjectRoles ::
  "'w packages \<Rightarrow> 'w SecurityContext \<Rightarrow> id_or_name \<Rightarrow> 'w state \<Rightarrow> int slice \<times> 'w state" where
  "GetProjectRoles env s projectIDOrName st =
     (if \<not> IsAuthenticated s \<or> projectIDOrName = NilIdent then (Slice [], st)
      else
        (case call (dao_GetUser env (User_with_Username (GetUsername s)))
                (Call_GetUser (User_with_Username (GetUsername s))) st of
           (Inl e, st1) \<Rightarrow> (Slice [], log_Errorf ''failed to get user %s: %v'' st1)
         | (Inr None, st1) \<Rightarrow> (Slice [], log_Debugf ''user %s not found'' st1)
         | (Inr (Some u), st1) \<Rightarrow>
             (case call (pm_Get (pm s) projectIDOrName) (Call_Get projectIDOrName) st1 of
                (Inl e, st2) \<Rightarrow> (Slice [], log_Errorf ''failed to get project %v: %v'' st2)
              | (Inr None, st2) \<Rightarrow> (Slice [], log_Errorf ''project %v not found'' st2)
              | (Inr (Some project), st2) \<Rightarrow>
                  (case call (dao_GetUserProjectRoles env (UserID u) (ProjectID project) (UserMember env))
                          (Call_GetUserProjectRoles (UserID u) (ProjectID project) (UserMember env)) st2 of
                     (Inl e, st3) \<Rightarrow>
                       (Slice [],
                        log_Errorf ''failed to get roles of user %d to project %d: %v'' st3)
                   | (Inr roleList, st3) \<Rightarrow>
                       (let roles = append_roles env roleList []
                        in if length roles \<noteq> 0 then (Slice roles, st3)
                           else GetRolesByGroup env s projectIDOrName st3)))))"

text \<open>The loops of \<open>HasWritePerm\<close> and \<open>HasAllPerm\<close> over the resolved roles.\<close>

fun has_write_role :: "'w packages \<Rightarrow> int list \<Rightarrow> bool" where
  "has_write_role env [] = False"
| "has_write_role env (role # roles) =
     (if role = RoleProjectAdmin env \<or> role = RoleDeveloper env then True
      else has_write_role env roles)"

fun has_all_role :: "'w packages \<Rightarrow> int list \<Rightarrow> bool" where
  "has_all_role env [] = False"
| "has_all_role env (role # roles) =
     (if role = RoleProjectAdmin env then True else has_all_role env roles)"

definition HasReadPerm ::
  "'w packages \<Rightarrow> 'w SecurityContext \<Rightarrow> id_or_name \<Rightarrow> 'w state \<Rightarrow> bool \<times> 'w state" where
  "HasReadPerm env s projectIDOrName st =
     (case call (pm_IsPublic (pm s) projectIDOrName) (Call_IsPublic projectIDOrName) st of
        (Inl e, st1) \<Rightarrow>
          (False, log_Errorf ''failed to check the public of project %v: %v'' st1)
      | (Inr public, st1) \<Rightarrow>
          if public then (True, st1)
          else if \<not> IsAuthenticated s then (False, st1)
          else if IsSysAdmin s then (True, st1)
          else (case GetProjectRoles env s projectIDOrName st1 of
                  (roles, st2) \<Rightarrow> (len roles > 0, st2)))"

definition HasWritePerm ::
  "'w packages \<Rightarrow> 'w SecurityContext \<Rightarrow> id_or_name \<Rightarrow> 'w state \<Rightarrow> bool \<times> 'w state" where
  "HasWritePerm env s projectIDOrName st =
     (if \<not> IsAuthenticated s then (False, st)
      else if IsSysAdmin s then (True, st)
      else (case GetProjectRoles env s projectIDOrName st of
              (roles, st1) \<Rightarrow> (has_write_role env (elems roles), st1)))"

definition HasAllPerm ::
  "'w packages \<Rightarrow> 'w SecurityContext \<Rightarrow> id_or_name \<Rightarrow> 'w state \<Rightarrow> bool \<times> 'w state" where
  "HasAllPerm env s projectIDOrName st =
     (if \<not> IsAuthenticated s then (False, st)
      else if IsSysAdmin s then (True, st)
      else (case GetProjectRoles env s projectIDOrName st of
              (roles, st1) \<Rightarrow> (has_all_role env (elems roles), st1)))"

text \<open>
  \<open>GetMyProjects\<close>. The argument of \<open>s.pm.List\<close> is built before the call:
  \<open>s.GetUsername()\<close> first, then \<open>s.user.GroupList\<close>, which dereferences \<open>s.user\<close>
  with no check for nil. The query parameter is given by its member query, the only
  field the method sets. The result \<open>(projects, err)\<close> is \<open>Inl err\<close> or
  \<open>Inr projects\<close>; \<open>result.Projects\<close> dereferences the result of \<open>pm.List\<close>.
\<close>

definition GetMyProjects ::
  "'w SecurityContext \<Rightarrow> 'w state \<Rightarrow> (err + Project slice) outcome \<times> 'w state" where
  "GetMyProjects s st =
     (let name = GetUsername s in
      case user s of
        None \<Rightarrow> (Panic_nil_dereference, st)
      | Some u \<Rightarrow>
          (let query = \<lparr>Name = name, QueryGroupList = GroupList u\<rparr> in
           case call (pm_List (pm s) query) (Call_List query) st of
             (Inl e, st1) \<Rightarrow> (Returned (Inl e), st1)
           | (Inr None, st1) \<Rightarrow> (Panic_nil_dereference, st1)
           | (Inr (Some result), st1) \<Rightarrow> (Returned (Inr (Projects result)), st1)))"

subsection \<open>Vocabulary of the properties\<close>

text \<open>The events a method added to the record of calls between two states.\<close>

definition new_events :: "'w state \<Rightarrow> 'w state \<Rightarrow> event list" where
  "new_events st st' = drop (length (trace st)) (trace st')"

text \<open>
  A collaborator call that failed or found nothing: the public-flag lookup, the user
  store, the project lookup, the role query or the group-role query returned an error,
  or the user or the project is absent.
\<close>

fun failed :: "event \<Rightarrow> bool" where
  "failed (Call_IsPublic p (Inl e)) = True"
| "failed (Call_GetUser q (Inl e)) = True"
| "failed (Call_GetUser q (Inr None)) = True"
| "failed (Call_Get p (Inl e)) = True"
| "failed (Call_Get p (Inr None)) = True"
| "failed (Call_GetUserProjectRoles u p m (Inl e)) = True"
| "failed (Call_GetRolesByLDAPGroup p c (Inl e)) = True"
| "failed ev = False"

text \<open>A call that only \<open>GetRolesByGroup\<close> makes.\<close>

fun group_call :: "event \<Rightarrow> bool" where
  "group_call (Call_GetGroupDNQueryCondition g c) = True"
| "group_call (Call_GetRolesByLDAPGroup p c r) = True"
| "group_call ev = False"

text \<open>
  The role-code mapping table as the specification gives it (section 6): \<open>MDRWS\<close> is
  ProjectAdmin, \<open>RWS\<close> is Developer, \<open>RS\<close> is Guest, and any other code maps to no role.
  It is compared with the loop \<open>append_roles\<close> of the source below.
\<close>

definition role_of_code :: "'w packages \<Rightarrow> string \<Rightarrow> int option" where
  "role_of_code env code =
     (if code = ''MDRWS'' then Some (RoleProjectAdmin env)
      else if code = ''RWS'' then Some (RoleDeveloper env)
      else if code = ''RS'' then Some (RoleGuest env)
      else None)"

text \<open>The role codes the \<open>switch\<close> of \<open>GetProjectRoles\<close> has a case for.\<close>

definition recognized :: "Role \<Rightarrow> bool" where
  "recognized role = (RoleCode role \<in> {''MDRWS'', ''RWS'', ''RS''})"

text \<open>
  The packages with a direct-assignment query that hands on only the rows with a
  recognized role code.
\<close>

definition recognized_only :: "'w packages \<Rightarrow> 'w packages" where
  "recognized_only env =
     env\<lparr>dao_GetUserProjectRoles := \<lambda>userID projectID entityType w.
           (case dao_GetUserProjectRoles env userID projectID entityType w of
              (Inl e, w') \<Rightarrow> (Inl e, w')
            | (Inr roleList, w') \<Rightarrow> (Inr (filter recognized roleList), w'))\<rparr>"

subsection \<open>Concrete collaborators\<close>

text \<open>
  Collaborators that answer every call with a fixed result; the world is the number
  of calls made so far. The role constants and the member kind have the values of
  package \<open>common\<close>.
\<close>

definition fixed_pm ::
  "(err + bool) \<Rightarrow> (err + Project option) \<Rightarrow> (err + ProjectQueryResult option)
     \<Rightarrow> nat ProjectManager" where
  "fixed_pm public project listing =
     \<lparr>pm_IsPublic = (\<lambda>p w. (public, Suc w)),
      pm_Get = (\<lambda>p w. (project, Suc w)),
      pm_List = (\<lambda>q w. (listing, Suc w))\<rparr>"

definition fixed_packages ::
  "(err + User option) \<Rightarrow> (err + Role list) \<Rightarrow> (err + int slice) \<Rightarrow> nat packages" where
  "fixed_packages found direct by_group =
     \<lparr>RoleProjectAdmin = 1, RoleDeveloper = 2, RoleGuest = 3, UserMember = ''u'',
      dao_GetUser = (\<lambda>q w. (found, Suc w)),
      dao_GetUserProjectRoles = (\<lambda>userID projectID entityType w. (direct, Suc w)),
      group_GetGroupDNQueryCondition = (\<lambda>groups w. (''cond'', Suc w)),
      dao_GetRolesByLDAPGroup = (\<lambda>projectID cond w. (by_group, Suc w))\<rparr>"

definition alice :: User where
  "alice = \<lparr>UserID = 7, Username = ''alice'', HasAdminRole = False, GroupList = Slice [10]\<rparr>"

definition root :: User where
  "root = \<lparr>UserID = 1, Username = ''admin'', HasAdminRole = True, GroupList = NilSlice\<rparr>"

definition library :: Project where
  "library = \<lparr>ProjectID = 42, ProjectName = ''library''\<rparr>"

definition role_row :: "string \<Rightarrow> Role" where
  "role_row code = \<lparr>RoleID = 0, RoleCode = code\<rparr>"

definition start :: "nat state" where
  "start = \<lparr>world = 0, trace = []\<rparr>"

text \<open>
  The context of \<open>alice\<close> (not an admin, in one group) and of nobody on the project
  \<open>library\<close>, the project manager answering the public-flag lookup with \<open>public\<close>; and
  the packages in which \<open>alice\<close> is a known user, the direct-assignment query returns
  one row for each of \<open>codes\<close>, and the group-role query returns \<open>by_group\<close>.
\<close>

definition context_of :: "User option \<Rightarrow> (err + bool) \<Rightarrow> nat SecurityContext" where
  "context_of u public =
     NewSecurityContext u (fixed_pm public (Inr (Some library)) (Inr None))"

definition packages_with :: "string list \<Rightarrow> (err + int slice) \<Rightarrow> nat packages" where
  "packages_with codes by_group =
     fixed_packages (Inr (Some alice)) (Inr (map role_row codes)) by_group"

section \<open>Properties\<close>

subsection \<open>Auxiliary facts\<close>

lemmas method_defs =
  HasReadPerm_def HasWritePerm_def HasAllPerm_def GetProjectRoles_def GetRolesByGroup_def
  GetMyProjects_def IsAuthenticated_def IsSysAdmin_def GetUsername_def
  NewSecurityContext_def User_with_Username_def call_def log_Errorf_def log_Debugf_def
  len_def new_events_def Let_def

lemmas example_defs =
  fixed_pm_def fixed_packages_def alice_def root_def library_def role_row_def start_def
  context_of_def packages_with_def

lemma call_eq:
  "f (world st) = (r, w') \<Longrightarrow> call f ev st = (r, \<lparr>world = w', trace = trace st @ [ev r]\<rparr>)"
  by (simp add: call_def)

text \<open>
  \<open>GetRolesByGroup\<close> and \<open>GetProjectRoles\<close> only add to the record of calls, and a
  failed call among the added ones leaves the result without elements. The record
  before the method is split into \<open>pre\<close> and \<open>mid\<close> so that the fact can be used after
  the calls a caller has made itself.
\<close>

lemma GetRolesByGroup_failed:
  "trace st = pre @ mid \<Longrightarrow> \<forall>ev\<in>set mid. \<not> failed ev \<Longrightarrow>
   \<exists>evs. trace (snd (GetRolesByGroup env s p st)) = pre @ evs \<and>
     ((\<exists>ev\<in>set evs. failed ev) \<longrightarrow> elems (fst (GetRolesByGroup env s p st)) = [])"
  by (auto simp: GetRolesByGroup_def call_def split: prod.splits sum.splits option.splits)

lemma GetProjectRoles_failed:
  "trace st = pre @ mid \<Longrightarrow> \<forall>ev\<in>set mid. \<not> failed ev \<Longrightarrow>
   \<exists>evs. trace (snd (GetProjectRoles env s p st)) = pre @ evs \<and>
     ((\<exists>ev\<in>set evs. failed ev) \<longrightarrow> elems (fst (GetProjectRoles env s p st)) = [])"
  apply (simp add: GetProjectRoles_def call_def log_Errorf_def log_Debugf_def Let_def
      split: prod.splits sum.splits option.splits)
  apply (intro allI impI conjI)
  apply (rule GetRolesByGroup_failed[where mid = "mid @ _"])
   apply simp
  apply simp
  done

lemma HasReadPerm_failed:
  "(\<exists>ev\<in>set (new_events st (snd (HasReadPerm env s p st))). failed ev) \<longrightarrow>
   fst (HasReadPerm env s p st) = False"
proof (cases "pm_IsPublic (pm s) p (world st)")
  case (Pair r w)
  define st1 where "st1 = \<lparr>world = w, trace = trace st @ [Call_IsPublic p r]\<rparr>"
  have c: "call (pm_IsPublic (pm s) p) (Call_IsPublic p) st = (r, st1)"
    using Pair by (simp add: call_def st1_def)
  show ?thesis
  proof (cases r)
    case (Inl e)
    then show ?thesis by (simp add: HasReadPerm_def c)
  next
    case (Inr public)
    have "trace st1 = trace st @ [Call_IsPublic p r]" by (simp add: st1_def)
    moreover have "\<forall>ev\<in>set [Call_IsPublic p r]. \<not> failed ev" using Inr by simp
    ultimately obtain evs where
      t: "trace (snd (GetProjectRoles env s p st1)) = trace st @ evs" and
      f: "(\<exists>ev\<in>set evs. failed ev) \<longrightarrow> elems (fst (GetProjectRoles env s p st1)) = []"
      using GetProjectRoles_failed by blast
    have t1: "new_events st st1 = [Call_IsPublic p r]"
      by (simp add: new_events_def st1_def)
    have t2: "new_events st (snd (GetProjectRoles env s p st1)) = evs"
      by (simp add: new_events_def t)
    show ?thesis
      using Inr f t1 t2
      by (auto simp: HasReadPerm_def c len_def split: prod.splits)
  qed
qed

lemma HasWritePerm_failed:
  "(\<exists>ev\<in>set (new_events st (snd (HasWritePerm env s p st))). failed ev) \<longrightarrow>
   fst (HasWritePerm env s p st) = False"
  using GetProjectRoles_failed[of st "trace st" "[]" env s p]
  by (auto simp: HasWritePerm_def new_events_def split: prod.splits)

lemma HasAllPerm_failed:
  "(\<exists>ev\<in>set (new_events st (snd (HasAllPerm env s p st))). failed ev) \<longrightarrow>
   fst (HasAllPerm env s p st) = False"
  using GetProjectRoles_failed[of st "trace st" "[]" env s p]
  by (auto simp: HasAllPerm_def new_events_def split: prod.splits)

text \<open>The two loops over the resolved roles are membership tests.\<close>

lemma has_write_role_iff:
  "has_write_role env roles \<longleftrightarrow> RoleProjectAdmin env \<in> set roles \<or> RoleDeveloper env \<in> set roles"
  by (induction roles) auto

lemma has_all_role_iff: "has_all_role env roles \<longleftrightarrow> RoleProjectAdmin env \<in> set roles"
  by (induction roles) auto

text \<open>
  The loop over the rows of the direct-assignment query computes the mapping table:
  it appends the role of each row with a recognized code, in order, and nothing else.
\<close>

lemma append_roles_filter:
  "append_roles env roleList roles = append_roles env (filter recognized roleList) roles"
  by (induction roleList arbitrary: roles) (auto simp: recognized_def)

lemma append_roles_length:
  "length (append_roles env roleList roles) = length roles + length (filter recognized roleList)"
  by (induction roleList arbitrary: roles) (auto simp: recognized_def)

lemma append_roles_table:
  "append_roles env roleList roles =
     roles @ List.map_filter (\<lambda>role. role_of_code env (RoleCode role)) roleList"
  by (induction roleList arbitrary: roles) (simp_all add: map_filter_simps role_of_code_def)

lemma append_roles_set:
  "set (append_roles env roleList []) \<subseteq>
     {RoleProjectAdmin env, RoleDeveloper env, RoleGuest env}"
  by (auto simp: append_roles_table map_filter_def role_of_code_def split: if_splits)

lemma append_roles_empty_iff:
  "append_roles env roleList [] = [] \<longleftrightarrow> filter recognized roleList = []"
  using append_roles_length[of env roleList "[]"] by (metis length_0_conv add_0)

text \<open>
  \<open>GetRolesByGroup\<close> only adds to the record of calls; \<open>GetProjectRoles\<close> makes a call of
  the group path only after a direct-assignment query whose rows map to no role.
\<close>

lemma GetRolesByGroup_trace_grows:
  "trace (snd (GetRolesByGroup env s p st)) =
     trace st @ new_events st (snd (GetRolesByGroup env s p st))"
  by (auto simp: GetRolesByGroup_def call_def new_events_def
      split: prod.splits sum.splits option.splits)

lemma group_call_only_after_empty_direct:
  "(\<exists>ev\<in>set (new_events st (snd (GetProjectRoles env s p st))). group_call ev) \<longrightarrow>
   (\<exists>userID projectID entityType roleList.
      Call_GetUserProjectRoles userID projectID entityType (Inr roleList)
        \<in> set (new_events st (snd (GetProjectRoles env s p st))) \<and>
      \<not> (\<exists>role\<in>set roleList. recognized role))"
proof -
  have e: "\<And>roleList. append_roles env roleList [] = [] \<longleftrightarrow>
      \<not> (\<exists>role\<in>set roleList. recognized role)"
    by (simp add: append_roles_empty_iff filter_empty_conv)
  show ?thesis
    apply (simp add: GetProjectRoles_def call_def new_events_def log_Errorf_def log_Debugf_def
        Let_def split: prod.split sum.split option.split)
    apply (simp add: GetRolesByGroup_trace_grows e)
    apply blast
    done
qed

text \<open>
  Dropping the rows with unrecognized codes from the answer of the direct-assignment
  query changes neither the resolved roles nor the world; \<open>GetRolesByGroup\<close> does not
  depend on that query, and its result does not depend on the record of calls.
\<close>

lemma GetRolesByGroup_recognized_only:
  "GetRolesByGroup (recognized_only env) s p st = GetRolesByGroup env s p st"
proof -
  have a: "group_GetGroupDNQueryCondition (recognized_only env) = group_GetGroupDNQueryCondition env"
    and b: "dao_GetRolesByLDAPGroup (recognized_only env) = dao_GetRolesByLDAPGroup env"
    by (simp_all add: recognized_only_def)
  show ?thesis
    unfolding GetRolesByGroup_def a b by (rule refl)
qed

lemma GetRolesByGroup_trace_independent:
  "world st = world st' \<Longrightarrow>
   fst (GetRolesByGroup env s p st) = fst (GetRolesByGroup env s p st') \<and>
   world (snd (GetRolesByGroup env s p st)) = world (snd (GetRolesByGroup env s p st'))"
  by (auto simp: GetRolesByGroup_def call_def split: prod.splits sum.splits option.splits)

lemma append_roles_recognized_only:
  "append_roles (recognized_only env) roleList roles = append_roles env roleList roles"
  by (induction roleList arbitrary: roles) (simp_all add: recognized_only_def)

lemma GetProjectRoles_recognized_only:
  "fst (GetProjectRoles (recognized_only env) s p st) = fst (GetProjectRoles env s p st) \<and>
   world (snd (GetProjectRoles (recognized_only env) s p st)) =
     world (snd (GetProjectRoles env s p st))"
proof -
  have f: "\<And>roleList. append_roles (recognized_only env) (filter recognized roleList) [] =
      append_roles env roleList []"
    by (simp add: append_roles_recognized_only append_roles_filter[symmetric])
  have c: "\<And>userID projectID entityType w.
      dao_GetUserProjectRoles (recognized_only env) userID projectID entityType w =
       (case dao_GetUserProjectRoles env userID projectID entityType w of
              (Inl e, w') \<Rightarrow> (Inl e, w')
            | (Inr roleList, w') \<Rightarrow> (Inr (filter recognized roleList), w'))"
    by (simp add: recognized_only_def)
  have o: "dao_GetUser (recognized_only env) = dao_GetUser env"
    "UserMember (recognized_only env) = UserMember env"
    by (simp_all add: recognized_only_def)
  show ?thesis
    apply (simp add: GetProjectRoles_def call_def log_Errorf_def log_Debugf_def Let_def c o f
        GetRolesByGroup_recognized_only
        split: prod.split sum.split option.split)
    apply (auto simp: f intro!: GetRolesByGroup_trace_independent[THEN conjunct1]
        GetRolesByGroup_trace_independent[THEN conjunct2])
    done
qed

subsection \<open>C1: the permission predicates fail closed\<close>

text \<open>
  Claim C1. For every project identifier, every context, every behaviour of the
  collaborators and every starting state: when a collaborator call made during
  \<open>HasReadPerm\<close>, \<open>HasWritePerm\<close> or \<open>HasAllPerm\<close> fails or finds nothing (the
  public-flag lookup, the user store, the project lookup, the role query or the
  group-role query returns an error, or the user or the project is absent), the
  predicate returns false. No error or missing-data branch returns a granted
  permission.
\<close>

theorem permission_predicates_fail_closed:
  "((\<exists>ev\<in>set (new_events st (snd (HasReadPerm env s p st))). failed ev) \<longrightarrow>
      fst (HasReadPerm env s p st) = False) \<and>
   ((\<exists>ev\<in>set (new_events st (snd (HasWritePerm env s p st))). failed ev) \<longrightarrow>
      fst (HasWritePerm env s p st) = False) \<and>
   ((\<exists>ev\<in>set (new_events st (snd (HasAllPerm env s p st))). failed ev) \<longrightarrow>
      fst (HasAllPerm env s p st) = False)"
  using HasReadPerm_failed HasWritePerm_failed HasAllPerm_failed by blast

text \<open>
  The user store fails for the non-admin user \<open>alice\<close> on a private project: each of the
  three predicates reaches the failed call and returns false.
\<close>

theorem permission_predicates_fail_closed_witness:
  "(\<exists>ev\<in>set (new_events start (snd (HasReadPerm
        (fixed_packages (Inl ''db down'') (Inr []) (Inr NilSlice))
        (NewSecurityContext (Some alice) (fixed_pm (Inr False) (Inr (Some library)) (Inr None)))
        (ProjectIDIdent 42) start))). failed ev) \<and>
   fst (HasReadPerm
        (fixed_packages (Inl ''db down'') (Inr []) (Inr NilSlice))
        (NewSecurityContext (Some alice) (fixed_pm (Inr False) (Inr (Some library)) (Inr None)))
        (ProjectIDIdent 42) start) = False \<and>
   (\<exists>ev\<in>set (new_events start (snd (HasWritePerm
        (fixed_packages (Inl ''db down'') (Inr []) (Inr NilSlice))
        (NewSecurityContext (Some alice) (fixed_pm (Inr False) (Inr (Some library)) (Inr None)))
        (ProjectIDIdent 42) start))). failed ev) \<and>
   fst (HasWritePerm
        (fixed_packages (Inl ''db down'') (Inr []) (Inr NilSlice))
        (NewSecurityContext (Some alice) (fixed_pm (Inr False) (Inr (Some library)) (Inr None)))
        (ProjectIDIdent 42) start) = False \<and>
   (\<exists>ev\<in>set (new_events start (snd (HasAllPerm
        (fixed_packages (Inl ''db down'') (Inr []) (Inr NilSlice))
        (NewSecurityContext (Some alice) (fixed_pm (Inr False) (Inr (Some library)) (Inr None)))
        (ProjectIDIdent 42) start))). failed ev) \<and>
   fst (HasAllPerm
        (fixed_packages (Inl ''db down'') (Inr []) (Inr NilSlice))
        (NewSecurityContext (Some alice) (fixed_pm (Inr False) (Inr (Some library)) (Inr None)))
        (ProjectIDIdent 42) start) = False"
proof -
  let ?env = "fixed_packages (Inl ''db down'') (Inr []) (Inr NilSlice)"
  let ?s = "NewSecurityContext (Some alice) (fixed_pm (Inr False) (Inr (Some library)) (Inr None))"
  have r: "\<exists>ev\<in>set (new_events start (snd (HasReadPerm ?env ?s (ProjectIDIdent 42) start))). failed ev"
    by (simp add: method_defs example_defs)
  have w: "\<exists>ev\<in>set (new_events start (snd (HasWritePerm ?env ?s (ProjectIDIdent 42) start))). failed ev"
    by (simp add: method_defs example_defs)
  have a: "\<exists>ev\<in>set (new_events start (snd (HasAllPerm ?env ?s (ProjectIDIdent 42) start))). failed ev"
    by (simp add: method_defs example_defs)
  show ?thesis
    using r w a permission_predicates_fail_closed[of start ?env ?s "ProjectIDIdent 42"]
    by blast
qed

subsection \<open>C2: a public project is readable by everyone\<close>

text \<open>
  Claim C2. When the public-flag lookup of a project returns true without error,
  \<open>HasReadPerm\<close> returns true for every context (no principal, a principal without
  roles, a principal with any roles, an admin). The public check comes first: the
  lookup of the flag is the only call the method has made when it returns.
\<close>

theorem public_project_readable:
  "pm_IsPublic (pm s) p (world st) = (Inr True, w') \<Longrightarrow>
   HasReadPerm env s p st =
     (True, \<lparr>world = w', trace = trace st @ [Call_IsPublic p (Inr True)]\<rparr>)"
  by (simp add: HasReadPerm_def call_def)

theorem public_project_readable_witness:
  "pm_IsPublic (pm (NewSecurityContext None (fixed_pm (Inr True) (Inr None) (Inr None))))
     (ProjectIDIdent 42) (world start) = (Inr True, 1) \<and>
   HasReadPerm (fixed_packages (Inr None) (Inr []) (Inr NilSlice))
     (NewSecurityContext None (fixed_pm (Inr True) (Inr None) (Inr None)))
     (ProjectIDIdent 42) start =
     (True, \<lparr>world = 1, trace = trace start @ [Call_IsPublic (ProjectIDIdent 42) (Inr True)]\<rparr>)"
proof -
  have h: "pm_IsPublic (pm (NewSecurityContext None (fixed_pm (Inr True) (Inr None) (Inr None))))
     (ProjectIDIdent 42) (world start) = (Inr True, 1)"
    by (simp add: NewSecurityContext_def example_defs)
  show ?thesis
    using h public_project_readable[OF h] by blast
qed

subsection \<open>C3: the system-admin override\<close>

text \<open>
  Claim C3, as amended. For every context whose principal is present with the
  system-admin flag set, and for every project identifier (also one whose lookup
  misses): \<open>HasWritePerm\<close> and \<open>HasAllPerm\<close> return true without a collaborator
  call, and \<open>HasReadPerm\<close> returns true whenever the public-flag lookup returns without
  error, whatever the flag, having made no other call; the roles of the project are
  never resolved. When the public-flag lookup returns an error, \<open>HasReadPerm\<close> returns
  false for a system admin as for everybody else.
\<close>

theorem system_admin_override:
  "user s = Some u \<Longrightarrow> HasAdminRole u \<Longrightarrow>
   HasWritePerm env s p st = (True, st) \<and>
   HasAllPerm env s p st = (True, st) \<and>
   (\<forall>public w'. pm_IsPublic (pm s) p (world st) = (Inr public, w') \<longrightarrow>
      HasReadPerm env s p st =
        (True, \<lparr>world = w', trace = trace st @ [Call_IsPublic p (Inr public)]\<rparr>)) \<and>
   (\<forall>e w'. pm_IsPublic (pm s) p (world st) = (Inl e, w') \<longrightarrow>
      fst (HasReadPerm env s p st) = False)"
  by (simp add: HasWritePerm_def HasAllPerm_def HasReadPerm_def IsAuthenticated_def
      IsSysAdmin_def call_def)

text \<open>The admin \<open>root\<close> and a project name that the project manager does not know.\<close>

theorem system_admin_override_witness:
  "user (NewSecurityContext (Some root) (fixed_pm (Inr False) (Inr None) (Inr None))) = Some root \<and>
   HasAdminRole root \<and>
   pm_IsPublic (pm (NewSecurityContext (Some root) (fixed_pm (Inr False) (Inr None) (Inr None))))
     (ProjectNameIdent ''missing'') (world start) = (Inr False, 1) \<and>
   HasWritePerm (fixed_packages (Inr (Some root)) (Inr []) (Inr NilSlice))
     (NewSecurityContext (Some root) (fixed_pm (Inr False) (Inr None) (Inr None)))
     (ProjectNameIdent ''missing'') start = (True, start) \<and>
   HasAllPerm (fixed_packages (Inr (Some root)) (Inr []) (Inr NilSlice))
     (NewSecurityContext (Some root) (fixed_pm (Inr False) (Inr None) (Inr None)))
     (ProjectNameIdent ''missing'') start = (True, start) \<and>
   HasReadPerm (fixed_packages (Inr (Some root)) (Inr []) (Inr NilSlice))
     (NewSecurityContext (Some root) (fixed_pm (Inr False) (Inr None) (Inr None)))
     (ProjectNameIdent ''missing'') start =
     (True, \<lparr>world = 1, trace = trace start @ [Call_IsPublic (ProjectNameIdent ''missing'') (Inr False)]\<rparr>)"
proof -
  let ?s = "NewSecurityContext (Some root) (fixed_pm (Inr False) (Inr None) (Inr None))"
  have u: "user ?s = Some root" by (simp add: NewSecurityContext_def)
  have a: "HasAdminRole root" by (simp add: root_def)
  have i: "pm_IsPublic (pm ?s) (ProjectNameIdent ''missing'') (world start) = (Inr False, 1)"
    by (simp add: NewSecurityContext_def example_defs)
  show ?thesis
    using u a i system_admin_override[OF u a,
        of "fixed_packages (Inr (Some root)) (Inr []) (Inr NilSlice)" "ProjectNameIdent ''missing''" start]
    by blast
qed

text \<open>
  The claim as stated fails: \<open>HasReadPerm\<close> checks the result of \<open>pm.IsPublic\<close> before
  it looks at the principal, so a failing lookup makes it false for the admin \<open>root\<close>.
\<close>

theorem system_admin_read_counterexample:
  "IsSysAdmin (NewSecurityContext (Some root) (fixed_pm (Inl ''db down'') (Inr (Some library)) (Inr None))) \<and>
   fst (HasReadPerm (fixed_packages (Inr (Some root)) (Inr [role_row ''MDRWS'']) (Inr NilSlice))
     (NewSecurityContext (Some root) (fixed_pm (Inl ''db down'') (Inr (Some library)) (Inr None)))
     (ProjectIDIdent 42) start) = False"
  by (simp add: method_defs example_defs)

subsection \<open>C4: a context without principal\<close>

text \<open>
  Claim C4. For every context with no principal, every project identifier and every
  state, \<open>HasWritePerm\<close> and \<open>HasAllPerm\<close> return false and \<open>GetProjectRoles\<close> returns
  the empty slice, all three without a collaborator call; \<open>GetUsername\<close> returns the
  empty string, \<open>IsSysAdmin\<close> returns false and \<open>IsAuthenticated\<close> returns false.
\<close>

theorem unauthenticated_context:
  "HasWritePerm env (s\<lparr>user := None\<rparr>) p st = (False, st) \<and>
   HasAllPerm env (s\<lparr>user := None\<rparr>) p st = (False, st) \<and>
   GetProjectRoles env (s\<lparr>user := None\<rparr>) p st = (Slice [], st) \<and>
   GetUsername (s\<lparr>user := None\<rparr>) = '''' \<and>
   IsSysAdmin (s\<lparr>user := None\<rparr>) = False \<and>
   IsAuthenticated (s\<lparr>user := None\<rparr>) = False"
  by (simp add: HasWritePerm_def HasAllPerm_def GetProjectRoles_def GetUsername_def
      IsSysAdmin_def IsAuthenticated_def)

theorem unauthenticated_context_witness:
  "HasWritePerm (fixed_packages (Inr (Some alice)) (Inr [role_row ''MDRWS'']) (Inr NilSlice))
     (NewSecurityContext None (fixed_pm (Inr False) (Inr (Some library)) (Inr None)))
     (ProjectIDIdent 42) start = (False, start) \<and>
   HasAllPerm (fixed_packages (Inr (Some alice)) (Inr [role_row ''MDRWS'']) (Inr NilSlice))
     (NewSecurityContext None (fixed_pm (Inr False) (Inr (Some library)) (Inr None)))
     (ProjectIDIdent 42) start = (False, start) \<and>
   GetProjectRoles (fixed_packages (Inr (Some alice)) (Inr [role_row ''MDRWS'']) (Inr NilSlice))
     (NewSecurityContext None (fixed_pm (Inr False) (Inr (Some library)) (Inr None)))
     (ProjectIDIdent 42) start = (Slice [], start) \<and>
   GetUsername (NewSecurityContext None (fixed_pm (Inr False) (Inr (Some library)) (Inr None))) = ''''"
proof -
  have "(NewSecurityContext None (fixed_pm (Inr False) (Inr (Some library)) (Inr None)))\<lparr>user := None\<rparr>
        = NewSecurityContext None (fixed_pm (Inr False) (Inr (Some library)) (Inr None))"
    by (simp add: NewSecurityContext_def)
  then show ?thesis
    using unauthenticated_context[of
        "fixed_packages (Inr (Some alice)) (Inr [role_row ''MDRWS'']) (Inr NilSlice)"
        "NewSecurityContext None (fixed_pm (Inr False) (Inr (Some library)) (Inr None))"
        "ProjectIDIdent 42" start]
    by simp
qed

subsection \<open>C5: what the resolved roles imply\<close>

text \<open>
  Claim C5, as amended. For every authenticated context that is not a system admin and
  every project, with \<open>roles\<close> the slice \<open>GetProjectRoles\<close> resolves: if \<open>roles\<close>
  contains \<open>RoleProjectAdmin\<close>, \<open>HasWritePerm\<close> and \<open>HasAllPerm\<close> return true; if its
  only element is \<open>RoleGuest\<close> (a constant different from the other two), both return
  false; if it contains \<open>RoleDeveloper\<close> and not \<open>RoleProjectAdmin\<close>, \<open>HasWritePerm\<close>
  returns true and \<open>HasAllPerm\<close> false. \<open>HasReadPerm\<close> asks for the public flag first:
  it returns true when that lookup returns without error and the roles resolved after
  it have \<open>RoleGuest\<close> as only element, and false when that lookup fails, whatever
  the roles.
\<close>

theorem role_implication:
  assumes "user s = Some u" and "\<not> HasAdminRole u"
  shows
  "(GetProjectRoles env s p st = (roles, st') \<longrightarrow>
      (RoleProjectAdmin env \<in> set (elems roles) \<longrightarrow>
         HasWritePerm env s p st = (True, st') \<and> HasAllPerm env s p st = (True, st')) \<and>
      (set (elems roles) = {RoleGuest env} \<and> RoleGuest env \<noteq> RoleProjectAdmin env \<and>
       RoleGuest env \<noteq> RoleDeveloper env \<longrightarrow>
         HasWritePerm env s p st = (False, st') \<and> HasAllPerm env s p st = (False, st')) \<and>
      (RoleDeveloper env \<in> set (elems roles) \<and> RoleProjectAdmin env \<notin> set (elems roles) \<longrightarrow>
         HasWritePerm env s p st = (True, st') \<and> HasAllPerm env s p st = (False, st'))) \<and>
   (pm_IsPublic (pm s) p (world st) = (Inr public, w_r) \<and>
    GetProjectRoles env s p \<lparr>world = w_r, trace = trace st @ [Call_IsPublic p (Inr public)]\<rparr>
      = (roles_r, st_r) \<and>
    set (elems roles_r) = {RoleGuest env} \<longrightarrow>
      fst (HasReadPerm env s p st) = True) \<and>
   (pm_IsPublic (pm s) p (world st) = (Inl e, w_r) \<longrightarrow> fst (HasReadPerm env s p st) = False)"
proof -
  have auth: "IsAuthenticated s" "\<not> IsSysAdmin s"
    using assms by (simp_all add: IsAuthenticated_def IsSysAdmin_def)
  have w: "GetProjectRoles env s p st = (roles, st') \<Longrightarrow>
      HasWritePerm env s p st = (has_write_role env (elems roles), st')"
    using auth by (simp add: HasWritePerm_def)
  have a: "GetProjectRoles env s p st = (roles, st') \<Longrightarrow>
      HasAllPerm env s p st = (has_all_role env (elems roles), st')"
    using auth by (simp add: HasAllPerm_def)
  have r: "pm_IsPublic (pm s) p (world st) = (Inr public, w_r) \<Longrightarrow>
    GetProjectRoles env s p \<lparr>world = w_r, trace = trace st @ [Call_IsPublic p (Inr public)]\<rparr>
      = (roles_r, st_r) \<Longrightarrow> set (elems roles_r) = {RoleGuest env} \<Longrightarrow>
      fst (HasReadPerm env s p st) = True"
    using auth by (cases "elems roles_r") (auto simp: HasReadPerm_def call_def len_def)
  have f: "pm_IsPublic (pm s) p (world st) = (Inl e, w_r) \<Longrightarrow> fst (HasReadPerm env s p st) = False"
    by (simp add: HasReadPerm_def call_def)
  show ?thesis
    using w a r f by (auto simp: has_write_role_iff has_all_role_iff)
qed

text \<open>
  \<open>alice\<close> with the direct role codes \<open>MDRWS\<close>, \<open>RS\<close> and \<open>RWS\<close> in turn on a private
  project, and with \<open>RS\<close> when the public-flag lookup fails.
\<close>

theorem role_implication_witness:
  "user (context_of (Some alice) (Inr False)) = Some alice \<and>
   \<not> HasAdminRole alice \<and>
   RoleProjectAdmin (packages_with [''MDRWS''] (Inr NilSlice)) \<in> set (elems (fst
     (GetProjectRoles (packages_with [''MDRWS''] (Inr NilSlice))
        (context_of (Some alice) (Inr False)) (ProjectIDIdent 42) start))) \<and>
   fst (HasWritePerm (packages_with [''MDRWS''] (Inr NilSlice))
        (context_of (Some alice) (Inr False)) (ProjectIDIdent 42) start) = True \<and>
   fst (HasAllPerm (packages_with [''MDRWS''] (Inr NilSlice))
        (context_of (Some alice) (Inr False)) (ProjectIDIdent 42) start) = True \<and>
   set (elems (fst
     (GetProjectRoles (packages_with [''RS''] (Inr NilSlice))
        (context_of (Some alice) (Inr False)) (ProjectIDIdent 42) start))) =
     {RoleGuest (packages_with [''RS''] (Inr NilSlice))} \<and>
   fst (HasWritePerm (packages_with [''RS''] (Inr NilSlice))
        (context_of (Some alice) (Inr False)) (ProjectIDIdent 42) start) = False \<and>
   fst (HasAllPerm (packages_with [''RS''] (Inr NilSlice))
        (context_of (Some alice) (Inr False)) (ProjectIDIdent 42) start) = False \<and>
   fst (HasReadPerm (packages_with [''RS''] (Inr NilSlice))
        (context_of (Some alice) (Inr False)) (ProjectIDIdent 42) start) = True \<and>
   RoleDeveloper (packages_with [''RWS''] (Inr NilSlice)) \<in> set (elems (fst
     (GetProjectRoles (packages_with [''RWS''] (Inr NilSlice))
        (context_of (Some alice) (Inr False)) (ProjectIDIdent 42) start))) \<and>
   fst (HasWritePerm (packages_with [''RWS''] (Inr NilSlice))
        (context_of (Some alice) (Inr False)) (ProjectIDIdent 42) start) = True \<and>
   fst (HasAllPerm (packages_with [''RWS''] (Inr NilSlice))
        (context_of (Some alice) (Inr False)) (ProjectIDIdent 42) start) = False \<and>
   fst (HasReadPerm (packages_with [''RS''] (Inr NilSlice))
        (context_of (Some alice) (Inl ''db down'')) (ProjectIDIdent 42) start) = False"
proof -
  let ?s = "context_of (Some alice) (Inr False)"
  let ?f = "context_of (Some alice) (Inl ''db down'')"
  let ?p = "ProjectIDIdent 42"
  let ?A = "packages_with [''MDRWS''] (Inr NilSlice)"
  let ?D = "packages_with [''RWS''] (Inr NilSlice)"
  let ?G = "packages_with [''RS''] (Inr NilSlice)"
  let ?st1 = "\<lparr>world = 1, trace = trace start @ [Call_IsPublic ?p (Inr False)]\<rparr>"
  have u: "user ?s = Some alice" and uf: "user ?f = Some alice"
    by (simp_all add: NewSecurityContext_def context_of_def)
  have n: "\<not> HasAdminRole alice" by (simp add: alice_def)
  have hA: "RoleProjectAdmin ?A \<in> set (elems (fst (GetProjectRoles ?A ?s ?p start)))"
    by (simp add: method_defs example_defs)
  have hG: "set (elems (fst (GetProjectRoles ?G ?s ?p start))) = {RoleGuest ?G}"
    "RoleGuest ?G \<noteq> RoleProjectAdmin ?G" "RoleGuest ?G \<noteq> RoleDeveloper ?G"
    by (simp_all add: method_defs example_defs)
  have hD: "RoleDeveloper ?D \<in> set (elems (fst (GetProjectRoles ?D ?s ?p start)))"
    "RoleProjectAdmin ?D \<notin> set (elems (fst (GetProjectRoles ?D ?s ?p start)))"
    by (simp_all add: method_defs example_defs)
  have hR: "pm_IsPublic (pm ?s) ?p (world start) = (Inr False, 1)"
    "set (elems (fst (GetProjectRoles ?G ?s ?p ?st1))) = {RoleGuest ?G}"
    by (simp_all add: method_defs example_defs)
  have hF: "pm_IsPublic (pm ?f) ?p (world start) = (Inl ''db down'', 1)"
    by (simp add: method_defs example_defs)
  note A = role_implication[OF u n, where env = ?A and p = ?p and st = start
      and roles = "fst (GetProjectRoles ?A ?s ?p start)"
      and st' = "snd (GetProjectRoles ?A ?s ?p start)"]
  note D = role_implication[OF u n, where env = ?D and p = ?p and st = start
      and roles = "fst (GetProjectRoles ?D ?s ?p start)"
      and st' = "snd (GetProjectRoles ?D ?s ?p start)"]
  note G = role_implication[OF u n, where env = ?G and p = ?p and st = start
      and roles = "fst (GetProjectRoles ?G ?s ?p start)"
      and st' = "snd (GetProjectRoles ?G ?s ?p start)"
      and public = False and w_r = 1
      and roles_r = "fst (GetProjectRoles ?G ?s ?p ?st1)"
      and st_r = "snd (GetProjectRoles ?G ?s ?p ?st1)"]
  note F = role_implication[OF uf n, where env = ?G and p = ?p and st = start
      and e = "''db down''" and w_r = 1]
  have "fst (HasWritePerm ?A ?s ?p start) = True" "fst (HasAllPerm ?A ?s ?p start) = True"
    using A hA by simp_all
  moreover have "fst (HasWritePerm ?G ?s ?p start) = False" "fst (HasAllPerm ?G ?s ?p start) = False"
    "fst (HasReadPerm ?G ?s ?p start) = True"
    using G hG hR by simp_all
  moreover have "fst (HasWritePerm ?D ?s ?p start) = True" "fst (HasAllPerm ?D ?s ?p start) = False"
    using D hD by simp_all
  moreover have "fst (HasReadPerm ?G ?f ?p start) = False"
    using F hF by simp
  ultimately show ?thesis using u n hA hG hD by blast
qed

text \<open>
  The claim as stated fails: with \<open>RoleGuest\<close> as the only resolved role,
  \<open>HasReadPerm\<close> is false when the public-flag lookup returns an error.
\<close>

theorem guest_read_counterexample:
  "IsAuthenticated (context_of (Some alice) (Inl ''db down'')) \<and>
   \<not> IsSysAdmin (context_of (Some alice) (Inl ''db down'')) \<and>
   set (elems (fst (GetProjectRoles (packages_with [''RS''] (Inr NilSlice))
     (context_of (Some alice) (Inl ''db down'')) (ProjectIDIdent 42) start))) =
     {RoleGuest (packages_with [''RS''] (Inr NilSlice))} \<and>
   fst (HasReadPerm (packages_with [''RS''] (Inr NilSlice))
     (context_of (Some alice) (Inl ''db down'')) (ProjectIDIdent 42) start) = False"
  by (simp add: method_defs example_defs)

subsection \<open>C6: direct roles shadow group roles\<close>

text \<open>
  Claim C6. For an authenticated context and a non-nil identifier, when the user and the
  project are found and the direct-assignment query returns \<open>roleList\<close>: if some row of
  \<open>roleList\<close> has a recognized code, \<open>GetProjectRoles\<close> returns exactly the roles of the
  recognized rows (a non-empty slice) and has made three calls only, the user lookup,
  the project lookup and the direct-assignment query, so \<open>GetRolesByGroup\<close> is not
  consulted; if no row has a recognized code, it returns what \<open>GetRolesByGroup\<close>
  returns. In every run of \<open>GetProjectRoles\<close>, whatever the collaborators do, a call of
  the group path is made only after a direct-assignment query whose rows map to no
  role.
\<close>

theorem direct_roles_take_precedence:
  assumes "IsAuthenticated s" and "p \<noteq> NilIdent"
    and "dao_GetUser env (User_with_Username (GetUsername s)) (world st) = (Inr (Some u), w_u)"
    and "pm_Get (pm s) p w_u = (Inr (Some project), w_p)"
    and "dao_GetUserProjectRoles env (UserID u) (ProjectID project) (UserMember env) w_p
           = (Inr roleList, w_r)"
    and "st_r = \<lparr>world = w_r, trace = trace st @
           [Call_GetUser (User_with_Username (GetUsername s)) (Inr (Some u)),
            Call_Get p (Inr (Some project)),
            Call_GetUserProjectRoles (UserID u) (ProjectID project) (UserMember env)
              (Inr roleList)]\<rparr>"
  shows "((\<exists>role\<in>set roleList. recognized role) \<longrightarrow>
            GetProjectRoles env s p st = (Slice (append_roles env roleList []), st_r) \<and>
            append_roles env roleList [] \<noteq> [] \<and>
            new_events st (snd (GetProjectRoles env s p st)) =
              [Call_GetUser (User_with_Username (GetUsername s)) (Inr (Some u)),
               Call_Get p (Inr (Some project)),
               Call_GetUserProjectRoles (UserID u) (ProjectID project) (UserMember env)
                 (Inr roleList)]) \<and>
         (\<not> (\<exists>role\<in>set roleList. recognized role) \<longrightarrow>
            GetProjectRoles env s p st = GetRolesByGroup env s p st_r) \<and>
         ((\<exists>ev\<in>set (new_events st (snd (GetProjectRoles env s p st))). group_call ev) \<longrightarrow>
            (\<exists>userID projectID entityType rows.
               Call_GetUserProjectRoles userID projectID entityType (Inr rows)
                 \<in> set (new_events st (snd (GetProjectRoles env s p st))) \<and>
               \<not> (\<exists>role\<in>set rows. recognized role)))"
proof -
  have e: "append_roles env roleList [] = [] \<longleftrightarrow> \<not> (\<exists>role\<in>set roleList. recognized role)"
    by (simp add: append_roles_empty_iff filter_empty_conv)
  have "(\<exists>role\<in>set roleList. recognized role) \<longrightarrow>
            GetProjectRoles env s p st = (Slice (append_roles env roleList []), st_r) \<and>
            append_roles env roleList [] \<noteq> [] \<and>
            new_events st (snd (GetProjectRoles env s p st)) =
              [Call_GetUser (User_with_Username (GetUsername s)) (Inr (Some u)),
               Call_Get p (Inr (Some project)),
               Call_GetUserProjectRoles (UserID u) (ProjectID project) (UserMember env)
                 (Inr roleList)]"
    using assms e by (simp add: GetProjectRoles_def call_def new_events_def)
  moreover have "\<not> (\<exists>role\<in>set roleList. recognized role) \<longrightarrow>
            GetProjectRoles env s p st = GetRolesByGroup env s p st_r"
    using assms e by (simp add: GetProjectRoles_def call_def)
  ultimately show ?thesis
    using group_call_only_after_empty_direct[of st env s p] by blast
qed

text \<open>
  \<open>alice\<close> has the direct code \<open>RWS\<close> while her group would give ProjectAdmin: the result
  is Developer alone, after three calls. With the unrecognized direct code \<open>XYZ\<close> the
  result is the one of the group path.
\<close>

theorem direct_roles_take_precedence_witness:
  "GetProjectRoles (packages_with [''RWS''] (Inr (Slice [1])))
     (context_of (Some alice) (Inr False)) (ProjectIDIdent 42) start =
     (Slice [2],
      \<lparr>world = 3, trace =
         [Call_GetUser (User_with_Username ''alice'') (Inr (Some alice)),
          Call_Get (ProjectIDIdent 42) (Inr (Some library)),
          Call_GetUserProjectRoles 7 42 ''u'' (Inr [role_row ''RWS''])]\<rparr>) \<and>
   GetProjectRoles (packages_with [''XYZ''] (Inr (Slice [1])))
     (context_of (Some alice) (Inr False)) (ProjectIDIdent 42) start =
     GetRolesByGroup (packages_with [''XYZ''] (Inr (Slice [1])))
       (context_of (Some alice) (Inr False)) (ProjectIDIdent 42)
       \<lparr>world = 3, trace =
         [Call_GetUser (User_with_Username ''alice'') (Inr (Some alice)),
          Call_Get (ProjectIDIdent 42) (Inr (Some library)),
          Call_GetUserProjectRoles 7 42 ''u'' (Inr [role_row ''XYZ''])]\<rparr> \<and>
   fst (GetProjectRoles (packages_with [''XYZ''] (Inr (Slice [1])))
     (context_of (Some alice) (Inr False)) (ProjectIDIdent 42) start) = Slice [1]"
proof -
  let ?s = "context_of (Some alice) (Inr False)"
  let ?p = "ProjectIDIdent 42"
  let ?D = "packages_with [''RWS''] (Inr (Slice [1]))"
  let ?X = "packages_with [''XYZ''] (Inr (Slice [1]))"
  have a: "IsAuthenticated ?s" and n: "?p \<noteq> NilIdent"
    by (simp_all add: method_defs example_defs)
  have name: "GetUsername ?s = ''alice''" by (simp add: method_defs example_defs)
  have uD: "dao_GetUser ?D (User_with_Username (GetUsername ?s)) (world start) = (Inr (Some alice), 1)"
    and uX: "dao_GetUser ?X (User_with_Username (GetUsername ?s)) (world start) = (Inr (Some alice), 1)"
    by (simp_all add: packages_with_def fixed_packages_def start_def)
  have g: "pm_Get (pm ?s) ?p 1 = (Inr (Some library), 2)"
    by (simp add: context_of_def NewSecurityContext_def fixed_pm_def)
  have rD: "dao_GetUserProjectRoles ?D (UserID alice) (ProjectID library) (UserMember ?D) 2
      = (Inr [role_row ''RWS''], 3)"
    and rX: "dao_GetUserProjectRoles ?X (UserID alice) (ProjectID library) (UserMember ?X) 2
      = (Inr [role_row ''XYZ''], 3)"
    by (simp_all add: packages_with_def fixed_packages_def)
  have ids: "UserID alice = 7" "ProjectID library = 42" "UserMember ?D = ''u''" "UserMember ?X = ''u''"
    "trace start = []"
    by (simp_all add: example_defs)
  have recD: "\<exists>role\<in>set [role_row ''RWS'']. recognized role"
    and recX: "\<not> (\<exists>role\<in>set [role_row ''XYZ'']. recognized role)"
    by (simp_all add: recognized_def role_row_def)
  have vD: "append_roles ?D [role_row ''RWS''] [] = [2]"
    by (simp add: example_defs)
  note D = direct_roles_take_precedence[OF a n uD g rD refl]
  note X = direct_roles_take_precedence[OF a n uX g rX refl]
  have 1: "GetProjectRoles ?D ?s ?p start =
     (Slice [2],
      \<lparr>world = 3, trace =
         [Call_GetUser (User_with_Username ''alice'') (Inr (Some alice)),
          Call_Get (ProjectIDIdent 42) (Inr (Some library)),
          Call_GetUserProjectRoles 7 42 ''u'' (Inr [role_row ''RWS''])]\<rparr>)"
    using D recD by (simp add: name ids vD del: append_roles.simps)
  have 2: "GetProjectRoles ?X ?s ?p start =
     GetRolesByGroup ?X ?s ?p
       \<lparr>world = 3, trace =
         [Call_GetUser (User_with_Username ''alice'') (Inr (Some alice)),
          Call_Get (ProjectIDIdent 42) (Inr (Some library)),
          Call_GetUserProjectRoles 7 42 ''u'' (Inr [role_row ''XYZ''])]\<rparr>"
    using X recX by (simp add: name ids)
  have 3: "fst (GetProjectRoles ?X ?s ?p start) = Slice [1]"
    unfolding 2 by (simp add: method_defs example_defs)
  show ?thesis using 1 2 3 by blast
qed

subsection \<open>C7: the role-code mapping\<close>

text \<open>
  Claim C7. The loop of \<open>GetProjectRoles\<close> over the rows of the direct-assignment query
  maps the code \<open>MDRWS\<close> to \<open>RoleProjectAdmin\<close>, \<open>RWS\<close> to \<open>RoleDeveloper\<close> and \<open>RS\<close> to
  \<open>RoleGuest\<close>, and a row with any other code leaves the roles as they are. For every
  list of rows the loop computes the mapping table of the specification, gives the
  same roles as on the rows with recognized codes alone, and yields no value other than
  the three role constants; and \<open>GetProjectRoles\<close> resolves the same roles, leaving the
  same world, when the rows with unrecognized codes are removed from the answer of the
  query.
\<close>

theorem role_code_mapping:
  "(RoleCode role = ''MDRWS'' \<longrightarrow> append_roles env [role] roles = roles @ [RoleProjectAdmin env]) \<and>
   (RoleCode role = ''RWS'' \<longrightarrow> append_roles env [role] roles = roles @ [RoleDeveloper env]) \<and>
   (RoleCode role = ''RS'' \<longrightarrow> append_roles env [role] roles = roles @ [RoleGuest env]) \<and>
   (RoleCode role \<notin> {''MDRWS'', ''RWS'', ''RS''} \<longrightarrow>
      append_roles env (role # roleList) roles = append_roles env roleList roles) \<and>
   append_roles env roleList roles =
     roles @ List.map_filter (\<lambda>role. role_of_code env (RoleCode role)) roleList \<and>
   append_roles env roleList roles = append_roles env (filter recognized roleList) roles \<and>
   set (append_roles env roleList []) \<subseteq> {RoleProjectAdmin env, RoleDeveloper env, RoleGuest env} \<and>
   fst (GetProjectRoles (recognized_only env) s p st) = fst (GetProjectRoles env s p st) \<and>
   world (snd (GetProjectRoles (recognized_only env) s p st)) =
     world (snd (GetProjectRoles env s p st))"
proof -
  have "RoleCode role = ''MDRWS'' \<longrightarrow> append_roles env [role] roles = roles @ [RoleProjectAdmin env]"
    "RoleCode role = ''RWS'' \<longrightarrow> append_roles env [role] roles = roles @ [RoleDeveloper env]"
    "RoleCode role = ''RS'' \<longrightarrow> append_roles env [role] roles = roles @ [RoleGuest env]"
    "RoleCode role \<notin> {''MDRWS'', ''RWS'', ''RS''} \<longrightarrow>
      append_roles env (role # roleList) roles = append_roles env roleList roles"
    by simp_all
  moreover note append_roles_table[of env roleList roles]
    append_roles_filter[of env roleList roles] append_roles_set[of env roleList]
    GetProjectRoles_recognized_only[of env s p st]
  ultimately show ?thesis by blast
qed

theorem role_code_mapping_witness:
  "append_roles (packages_with [] (Inr NilSlice)) [role_row ''MDRWS''] [] = [1] \<and>
   append_roles (packages_with [] (Inr NilSlice)) [role_row ''RWS''] [] = [2] \<and>
   append_roles (packages_with [] (Inr NilSlice)) [role_row ''RS''] [] = [3] \<and>
   append_roles (packages_with [] (Inr NilSlice)) [role_row ''RW'', role_row ''RS''] [] = [3] \<and>
   append_roles (packages_with [] (Inr NilSlice))
     [role_row ''admin'', role_row ''RWS'', role_row '''', role_row ''MDRWS'', role_row ''rs''] [] = [2, 1] \<and>
   fst (GetProjectRoles (recognized_only (packages_with [''admin'', ''RS''] (Inr NilSlice)))
     (context_of (Some alice) (Inr False)) (ProjectIDIdent 42) start) = Slice [3]"
proof -
  let ?env = "packages_with [] (Inr NilSlice)"
  let ?E = "packages_with [''admin'', ''RS''] (Inr NilSlice)"
  have c: "RoleProjectAdmin ?env = 1" "RoleDeveloper ?env = 2" "RoleGuest ?env = 3"
    by (simp_all add: example_defs)
  have m: "RoleCode (role_row ''MDRWS'') = ''MDRWS''" "RoleCode (role_row ''RWS'') = ''RWS''"
    "RoleCode (role_row ''RS'') = ''RS''"
    "RoleCode (role_row ''RW'') \<notin> {''MDRWS'', ''RWS'', ''RS''}"
    by (simp_all add: role_row_def)
  have f: "filter recognized
      [role_row ''admin'', role_row ''RWS'', role_row '''', role_row ''MDRWS'', role_row ''rs'']
      = [role_row ''RWS'', role_row ''MDRWS'']"
    by (simp add: recognized_def role_row_def)
  have g: "fst (GetProjectRoles ?E (context_of (Some alice) (Inr False)) (ProjectIDIdent 42) start)
      = Slice [3]"
    by (simp add: method_defs example_defs)
  note A = role_code_mapping[of "role_row ''MDRWS''" ?env "[]" "[]"
      "context_of (Some alice) (Inr False)" "ProjectIDIdent 42" start]
  note D = role_code_mapping[of "role_row ''RWS''" ?env "[]" "[]"
      "context_of (Some alice) (Inr False)" "ProjectIDIdent 42" start]
  note G = role_code_mapping[of "role_row ''RS''" ?env "[]" "[role_row ''RW'', role_row ''RS'']"
      "context_of (Some alice) (Inr False)" "ProjectIDIdent 42" start]
  note U = role_code_mapping[of "role_row ''RW''" ?env "[]" "[role_row ''RS'']"
      "context_of (Some alice) (Inr False)" "ProjectIDIdent 42" start]
  note F = role_code_mapping[of "role_row ''RS''" ?env "[]"
      "[role_row ''admin'', role_row ''RWS'', role_row '''', role_row ''MDRWS'', role_row ''rs'']"
      "context_of (Some alice) (Inr False)" "ProjectIDIdent 42" start]
  note R = role_code_mapping[of "role_row ''RS''" ?E "[]" "[]"
      "context_of (Some alice) (Inr False)" "ProjectIDIdent 42" start]
  have 1: "append_roles ?env [role_row ''MDRWS''] [] = [1]" using A m c by simp
  have 2: "append_roles ?env [role_row ''RWS''] [] = [2]" using D m c by simp
  have 3: "append_roles ?env [role_row ''RS''] [] = [3]" using G m c by simp
  have 4: "append_roles ?env [role_row ''RW'', role_row ''RS''] [] = [3]"
    using U m 3 by (simp del: append_roles.simps)
  have 5: "append_roles ?env
     [role_row ''admin'', role_row ''RWS'', role_row '''', role_row ''MDRWS'', role_row ''rs''] [] = [2, 1]"
  proof -
    from F have "append_roles ?env
       [role_row ''admin'', role_row ''RWS'', role_row '''', role_row ''MDRWS'', role_row ''rs''] []
       = append_roles ?env (filter recognized
       [role_row ''admin'', role_row ''RWS'', role_row '''', role_row ''MDRWS'', role_row ''rs'']) []"
      by blast
    then show ?thesis unfolding f by (simp add: role_row_def c)
  qed
  have 6: "fst (GetProjectRoles (recognized_only ?E) (context_of (Some alice) (Inr False))
      (ProjectIDIdent 42) start) = Slice [3]"
    using R g by simp
  show ?thesis using 1 2 3 4 5 6 by blast
qed

subsection \<open>C8: the nil identifier\<close>

text \<open>
  Claim C8. For every context, \<open>GetProjectRoles\<close> with the nil identifier returns the
  empty slice and leaves the state as it is: no collaborator is called and nothing is
  logged. The result is the one of a project that is not found: when the user is found
  and the project lookup finds nothing, \<open>GetProjectRoles\<close> returns the same empty slice.
\<close>

theorem nil_identifier:
  "GetProjectRoles env s NilIdent st = (Slice [], st) \<and>
   (IsAuthenticated s \<and> p \<noteq> NilIdent \<and>
    dao_GetUser env (User_with_Username (GetUsername s)) (world st) = (Inr (Some u), w_u) \<and>
    pm_Get (pm s) p w_u = (Inr None, w_p) \<longrightarrow>
      fst (GetProjectRoles env s p st) = fst (GetProjectRoles env s NilIdent st))"
  by (simp add: GetProjectRoles_def call_def)

theorem nil_identifier_witness:
  "GetProjectRoles (packages_with [''MDRWS''] (Inr (Slice [1])))
     (context_of (Some alice) (Inr False)) NilIdent start = (Slice [], start) \<and>
   fst (GetProjectRoles (packages_with [''MDRWS''] (Inr (Slice [1])))
     (NewSecurityContext (Some alice) (fixed_pm (Inr False) (Inr None) (Inr None)))
     (ProjectNameIdent ''missing'') start) =
   fst (GetProjectRoles (packages_with [''MDRWS''] (Inr (Slice [1])))
     (NewSecurityContext (Some alice) (fixed_pm (Inr False) (Inr None) (Inr None)))
     NilIdent start)"
proof -
  let ?env = "packages_with [''MDRWS''] (Inr (Slice [1]))"
  let ?m = "NewSecurityContext (Some alice) (fixed_pm (Inr False) (Inr None) (Inr None))"
  have h: "IsAuthenticated ?m" "ProjectNameIdent ''missing'' \<noteq> NilIdent"
    "dao_GetUser ?env (User_with_Username (GetUsername ?m)) (world start) = (Inr (Some alice), 1)"
    "pm_Get (pm ?m) (ProjectNameIdent ''missing'') 1 = (Inr None, 2)"
    by (simp_all add: IsAuthenticated_def NewSecurityContext_def example_defs)
  show ?thesis
    using h nil_identifier[of ?env "context_of (Some alice) (Inr False)" start]
      nil_identifier[of ?env ?m start "ProjectNameIdent ''missing''" alice 1 2]
    by blast
qed

subsection \<open>C9: the results of the group path\<close>

text \<open>
  Claim C9, as amended. When the group-to-role query fails, \<open>GetRolesByGroup\<close> returns
  the nil slice, of length 0. It returns the same nil slice when one of its
  preconditions fails (the project lookup fails or finds nothing, there is no
  principal, the principal has no group), so a failed query is not distinguishable from
  these. When the query succeeds, the slice of the query is returned as it is.
\<close>

theorem group_roles_results:
  "(pm_Get (pm s) p (world st) = (Inr (Some project), w_p) \<and> user s = Some u \<and>
    len (GroupList u) \<noteq> 0 \<and>
    group_GetGroupDNQueryCondition env (GroupList u) w_p = (cond, w_c) \<longrightarrow>
      (dao_GetRolesByLDAPGroup env (ProjectID project) cond w_c = (Inl e, w_r) \<longrightarrow>
         fst (GetRolesByGroup env s p st) = NilSlice) \<and>
      (dao_GetRolesByLDAPGroup env (ProjectID project) cond w_c = (Inr roles, w_r) \<longrightarrow>
         fst (GetRolesByGroup env s p st) = roles)) \<and>
   (pm_Get (pm s) p (world st) = (Inl e, w_p) \<longrightarrow> fst (GetRolesByGroup env s p st) = NilSlice) \<and>
   (pm_Get (pm s) p (world st) = (Inr None, w_p) \<longrightarrow>
      fst (GetRolesByGroup env s p st) = NilSlice) \<and>
   fst (GetRolesByGroup env (s\<lparr>user := None\<rparr>) p st) = NilSlice \<and>
   (user s = Some u \<and> len (GroupList u) = 0 \<longrightarrow> fst (GetRolesByGroup env s p st) = NilSlice) \<and>
   len (NilSlice :: int slice) = 0"
  by (auto simp: GetRolesByGroup_def call_def len_def split: prod.splits sum.splits option.splits)

theorem group_roles_results_witness:
  "fst (GetRolesByGroup (packages_with [] (Inl ''query failed''))
     (context_of (Some alice) (Inr False)) (ProjectIDIdent 42) start) = NilSlice \<and>
   fst (GetRolesByGroup (packages_with [] (Inr (Slice [])))
     (context_of (Some alice) (Inr False)) (ProjectIDIdent 42) start) = Slice [] \<and>
   fst (GetRolesByGroup (packages_with [] (Inr (Slice [3])))
     (context_of (Some alice) (Inr False)) (ProjectIDIdent 42) start) = Slice [3] \<and>
   fst (GetRolesByGroup (packages_with [] (Inr (Slice [3])))
     (NewSecurityContext (Some alice) (fixed_pm (Inr False) (Inl ''db down'') (Inr None)))
     (ProjectIDIdent 42) start) = NilSlice \<and>
   fst (GetRolesByGroup (packages_with [] (Inr (Slice [3])))
     (NewSecurityContext (Some alice) (fixed_pm (Inr False) (Inr None) (Inr None)))
     (ProjectIDIdent 42) start) = NilSlice \<and>
   fst (GetRolesByGroup (packages_with [] (Inr (Slice [3])))
     (context_of None (Inr False)) (ProjectIDIdent 42) start) = NilSlice \<and>
   fst (GetRolesByGroup (packages_with [] (Inr (Slice [3])))
     (context_of (Some root) (Inr False)) (ProjectIDIdent 42) start) = NilSlice"
proof -
  let ?p = "ProjectIDIdent 42"
  let ?a = "context_of (Some alice) (Inr False)"
  let ?F = "packages_with [] (Inl ''query failed'')"
  let ?E = "packages_with [] (Inr (Slice []))"
  let ?G = "packages_with [] (Inr (Slice [3]))"
  let ?pe = "NewSecurityContext (Some alice) (fixed_pm (Inr False) (Inl ''db down'') (Inr None))"
  let ?pn = "NewSecurityContext (Some alice) (fixed_pm (Inr False) (Inr None) (Inr None))"
  let ?r = "context_of (Some root) (Inr False)"
  have pre: "pm_Get (pm ?a) ?p (world start) = (Inr (Some library), 1)" "user ?a = Some alice"
    "len (GroupList alice) \<noteq> 0"
    by (simp_all add: method_defs example_defs)
  have c: "group_GetGroupDNQueryCondition ?F (GroupList alice) 1 = (''cond'', 2)"
    "group_GetGroupDNQueryCondition ?E (GroupList alice) 1 = (''cond'', 2)"
    "group_GetGroupDNQueryCondition ?G (GroupList alice) 1 = (''cond'', 2)"
    by (simp_all add: example_defs)
  have q: "dao_GetRolesByLDAPGroup ?F (ProjectID library) ''cond'' 2 = (Inl ''query failed'', 3)"
    "dao_GetRolesByLDAPGroup ?E (ProjectID library) ''cond'' 2 = (Inr (Slice []), 3)"
    "dao_GetRolesByLDAPGroup ?G (ProjectID library) ''cond'' 2 = (Inr (Slice [3]), 3)"
    by (simp_all add: example_defs)
  have o: "pm_Get (pm ?pe) ?p (world start) = (Inl ''db down'', 1)"
    "pm_Get (pm ?pn) ?p (world start) = (Inr None, 1)"
    "(context_of None (Inr False) :: nat SecurityContext)\<lparr>user := None\<rparr> = context_of None (Inr False)"
    "user ?r = Some root" "len (GroupList root) = 0"
    by (simp_all add: method_defs example_defs)
  have 1: "fst (GetRolesByGroup ?F ?a ?p start) = NilSlice"
    using pre c q
      group_roles_results[of ?a ?p start library 1 alice ?F "''cond''" 2 "''query failed''" 3]
    by blast
  have 2: "fst (GetRolesByGroup ?E ?a ?p start) = Slice []"
    using pre c q
      group_roles_results[of ?a ?p start library 1 alice ?E "''cond''" 2 _ 3 "Slice []"]
    by blast
  have 3: "fst (GetRolesByGroup ?G ?a ?p start) = Slice [3]"
    using pre c q
      group_roles_results[of ?a ?p start library 1 alice ?G "''cond''" 2 _ 3 "Slice [3]"]
    by blast
  have 4: "fst (GetRolesByGroup ?G ?pe ?p start) = NilSlice"
    using o group_roles_results[of ?pe ?p start _ 1 _ ?G _ _ "''db down''"] by blast
  have 5: "fst (GetRolesByGroup ?G ?pn ?p start) = NilSlice"
    using o group_roles_results[of ?pn ?p start _ 1 _ ?G] by blast
  have 6: "fst (GetRolesByGroup ?G (context_of None (Inr False)) ?p start) = NilSlice"
    using o group_roles_results[of "context_of None (Inr False)" ?p start _ _ _ ?G] by metis
  have 7: "fst (GetRolesByGroup ?G ?r ?p start) = NilSlice"
    using o group_roles_results[of ?r ?p start _ _ root ?G] by blast
  show ?thesis using 1 2 3 4 5 6 7 by blast
qed

text \<open>
  The claim as stated fails: the result of a failed query (for \<open>alice\<close>) and the result
  without principal are the same value.
\<close>

theorem group_query_failure_counterexample:
  "Call_GetRolesByLDAPGroup 42 ''cond'' (Inl ''query failed'') \<in> set (trace (snd
     (GetRolesByGroup (packages_with [] (Inl ''query failed''))
        (context_of (Some alice) (Inr False)) (ProjectIDIdent 42) start))) \<and>
   user (context_of None (Inr False) :: nat SecurityContext) = None \<and>
   fst (GetRolesByGroup (packages_with [] (Inl ''query failed''))
        (context_of (Some alice) (Inr False)) (ProjectIDIdent 42) start) =
   fst (GetRolesByGroup (packages_with [] (Inl ''query failed''))
        (context_of None (Inr False)) (ProjectIDIdent 42) start)"
  by (simp add: method_defs example_defs)

subsection \<open>C10: \<open>GetMyProjects\<close> without principal\<close>

text \<open>
  Claim C10. \<open>GetMyProjects\<close> reads the group list of the principal with no check that
  there is one: for a context without principal it ends in the panic of a nil
  dereference, before the project manager is called, instead of returning a list or an
  error. With a principal \<open>u\<close> it calls \<open>pm.List\<close> with the name and the group list of \<open>u\<close> and
  returns the projects of the result, or the error of the call.
\<close>

theorem GetMyProjects_needs_principal:
  "GetMyProjects (s\<lparr>user := None\<rparr>) st = (Panic_nil_dereference, st) \<and>
   (user s = Some u \<and>
    pm_List (pm s) \<lparr>Name = Username u, QueryGroupList = GroupList u\<rparr> (world st)
      = (Inr (Some result), w') \<longrightarrow>
      GetMyProjects s st =
        (Returned (Inr (Projects result)),
         \<lparr>world = w', trace = trace st @
            [Call_List \<lparr>Name = Username u, QueryGroupList = GroupList u\<rparr> (Inr (Some result))]\<rparr>)) \<and>
   (user s = Some u \<and>
    pm_List (pm s) \<lparr>Name = Username u, QueryGroupList = GroupList u\<rparr> (world st)
      = (Inl e, w') \<longrightarrow>
      GetMyProjects s st =
        (Returned (Inl e),
         \<lparr>world = w', trace = trace st @
            [Call_List \<lparr>Name = Username u, QueryGroupList = GroupList u\<rparr> (Inl e)]\<rparr>))"
  by (simp add: GetMyProjects_def GetUsername_def IsAuthenticated_def call_def)

theorem GetMyProjects_needs_principal_witness:
  "GetMyProjects (NewSecurityContext None
       (fixed_pm (Inr False) (Inr None) (Inr (Some \<lparr>Total = 1, Projects = Slice [library]\<rparr>))))
     start = (Panic_nil_dereference, start) \<and>
   GetMyProjects (NewSecurityContext (Some alice)
       (fixed_pm (Inr False) (Inr None) (Inr (Some \<lparr>Total = 1, Projects = Slice [library]\<rparr>))))
     start =
     (Returned (Inr (Slice [library])),
      \<lparr>world = 1, trace = [Call_List \<lparr>Name = ''alice'', QueryGroupList = Slice [10]\<rparr>
          (Inr (Some \<lparr>Total = 1, Projects = Slice [library]\<rparr>))]\<rparr>) \<and>
   GetMyProjects (NewSecurityContext (Some alice)
       (fixed_pm (Inr False) (Inr None) (Inl ''db down''))) start =
     (Returned (Inl ''db down''),
      \<lparr>world = 1, trace = [Call_List \<lparr>Name = ''alice'', QueryGroupList = Slice [10]\<rparr>
          (Inl ''db down'')]\<rparr>)"
proof -
  let ?res = "\<lparr>Total = 1, Projects = Slice [library]\<rparr>"
  let ?n = "NewSecurityContext None (fixed_pm (Inr False) (Inr None) (Inr (Some ?res)))"
  let ?a = "NewSecurityContext (Some alice) (fixed_pm (Inr False) (Inr None) (Inr (Some ?res)))"
  let ?f = "NewSecurityContext (Some alice) (fixed_pm (Inr False) (Inr None) (Inl ''db down''))"
  have n: "?n\<lparr>user := None\<rparr> = ?n" by (simp add: NewSecurityContext_def)
  have a: "user ?a = Some alice"
    "pm_List (pm ?a) \<lparr>Name = Username alice, QueryGroupList = GroupList alice\<rparr> (world start)
      = (Inr (Some ?res), 1)"
    by (simp_all add: NewSecurityContext_def fixed_pm_def start_def)
  have f: "user ?f = Some alice"
    "pm_List (pm ?f) \<lparr>Name = Username alice, QueryGroupList = GroupList alice\<rparr> (world start)
      = (Inl ''db down'', 1)"
    by (simp_all add: NewSecurityContext_def fixed_pm_def start_def)
  have v: "Username alice = ''alice''" "GroupList alice = Slice [10]" "trace start = []"
    "Projects ?res = Slice [library]"
    by (simp_all add: alice_def start_def)
  have 1: "GetMyProjects ?n start = (Panic_nil_dereference, start)"
    using GetMyProjects_needs_principal[of ?n start] n by simp
  have 2: "GetMyProjects ?a start = (Returned (Inr (Slice [library])),
      \<lparr>world = 1, trace = [Call_List \<lparr>Name = ''alice'', QueryGroupList = Slice [10]\<rparr>
          (Inr (Some ?res))]\<rparr>)"
    using GetMyProjects_needs_principal[of ?a start alice ?res 1] a v by simp
  have 3: "GetMyProjects ?f start = (Returned (Inl ''db down''),
      \<lparr>world = 1, trace = [Call_List \<lparr>Name = ''alice'', QueryGroupList = Slice [10]\<rparr>
          (Inl ''db down'')]\<rparr>)"
    using GetMyProjects_needs_principal[of ?f start alice _ 1 "''db down''"] f v by simp
  show ?thesis using 1 2 3 by blast
qed

end
